theory Spec2Isabelle
  imports Main "HOL-Library.Word"
begin

section \<open>Severities and the level parser of the logging engine\<close>

text \<open>
  \<^verbatim>\<open>zapcore.Level\<close> of the structured-logging engine: seven severities, ordered from
  \<^verbatim>\<open>DebugLevel\<close> (-1) to \<^verbatim>\<open>FatalLevel\<close> (5).
\<close>

datatype zapcore_Level =
  DebugLevel | InfoLevel | WarnLevel | ErrorLevel | DPanicLevel | PanicLevel | FatalLevel

fun level_num :: "zapcore_Level \<Rightarrow> int" where
  "level_num DebugLevel = -1"
| "level_num InfoLevel = 0"
| "level_num WarnLevel = 1"
| "level_num ErrorLevel = 2"
| "level_num DPanicLevel = 3"
| "level_num PanicLevel = 4"
| "level_num FatalLevel = 5"

text \<open>
  \<^verbatim>\<open>strings.ToLower\<close> and \<^verbatim>\<open>bytes.ToLower\<close> on the bytes of a string. The Go functions
  lower-case by Unicode code point: the letters \<^verbatim>\<open>A\<close>..\<^verbatim>\<open>Z\<close> go to \<^verbatim>\<open>a\<close>..\<^verbatim>\<open>z\<close>, and
  exactly two code points above U+007F go to an ASCII letter, U+0130 (the bytes C4 B0) to
  \<^verbatim>\<open>i\<close> and U+212A (the bytes E2 84 AA) to \<^verbatim>\<open>k\<close>. Every other code point above U+007F
  goes to a code point above U+007F, and a byte that is not valid UTF-8 to U+FFFD. The
  model does the first three and keeps every other byte above 7F as it is. So the result
  of the model and the result of the Go function are the same string whenever one of them
  is a string of ASCII bytes, and both have a byte above 7F otherwise; the code compares
  the result with strings of ASCII bytes only (the names of the levels and of the two
  console streams).
\<close>

definition lower_char :: "char \<Rightarrow> char" where
  "lower_char c =
     (let n = (of_char c :: nat) in if 65 \<le> n \<and> n \<le> 90 then char_of (n + 32) else c)"

fun ToLower :: "string \<Rightarrow> string" where
  "ToLower [] = []"
| "ToLower (c # cs) =
     (if c = CHR 0xC4 \<and> take 1 cs = [CHR 0xB0] then CHR ''i'' # ToLower (drop 1 cs)
      else if c = CHR 0xE2 \<and> take 2 cs = [CHR 0x84, CHR 0xAA]
        then CHR ''k'' # ToLower (drop 2 cs)
      else lower_char c # ToLower cs)"

definition is_ascii :: "string \<Rightarrow> bool" where
  "is_ascii s = list_all (\<lambda>c. (of_char c :: nat) < 128) s"

text \<open>
  \<^verbatim>\<open>zapcore.Level.UnmarshalText\<close> (go.uber.org/zap v1.27.1, the version required by
  go.mod; a dependency, not a file of the repository). The inner \<^verbatim>\<open>unmarshalText\<close> is a
  switch over the names of the levels in lower case and in upper case, with \<^verbatim>\<open>warning\<close>
  as a second name of \<^verbatim>\<open>warn\<close> and the empty string accepted as \<^verbatim>\<open>InfoLevel\<close>; the outer
  function tries the text as it is and then its lower-casing by \<^verbatim>\<open>bytes.ToLower\<close>, and
  returns an error (here \<open>None\<close>) when both fail.
\<close>

definition unmarshalText :: "string \<Rightarrow> zapcore_Level option" where
  "unmarshalText text =
     (if text = ''debug'' \<or> text = ''DEBUG'' then Some DebugLevel
      else if text = ''info'' \<or> text = ''INFO'' \<or> text = '''' then Some InfoLevel
      else if text = ''warn'' \<or> text = ''warning'' \<or> text = ''WARN'' \<or> text = ''WARNING''
        then Some WarnLevel
      else if text = ''error'' \<or> text = ''ERROR'' then Some ErrorLevel
      else if text = ''dpanic'' \<or> text = ''DPANIC'' then Some DPanicLevel
      else if text = ''panic'' \<or> text = ''PANIC'' then Some PanicLevel
      else if text = ''fatal'' \<or> text = ''FATAL'' then Some FatalLevel
      else None)"

definition UnmarshalText :: "string \<Rightarrow> zapcore_Level option" where
  "UnmarshalText text =
     (case unmarshalText text of
        Some l \<Rightarrow> Some l
      | None \<Rightarrow> unmarshalText (ToLower text))"

text \<open>The seven severity names of the documentation of \<^verbatim>\<open>Options.Level\<close>.\<close>

definition severities :: "string list" where
  "severities = [''debug'', ''info'', ''warn'', ''error'', ''dpanic'', ''panic'', ''fatal'']"

section \<open>Options (options.go)\<close>

record Options =
  OutputPaths :: "string list"
  ErrorOutputPaths :: "string list"
  Level :: string
  Format :: string
  DisableCaller :: bool
  DisableStacktrace :: bool
  Filename :: string
  MaxSize :: "64 word"
  MaxAge :: "64 word"
  MaxBackups :: "64 word"
  Compress :: bool
  Development :: bool

text \<open>An \<^verbatim>\<open>Option\<close> is a function that mutates the \<^verbatim>\<open>*Options\<close> it is given.\<close>

type_synonym Option = "Options \<Rightarrow> Options"

definition NewOptions :: Options where
  "NewOptions =
     \<lparr> OutputPaths = [''stdout''], ErrorOutputPaths = [''stderr''],
       Level = ''info'', Format = ''console'',
       DisableCaller = False, DisableStacktrace = False,
       Filename = '''', MaxSize = 0, MaxAge = 0, MaxBackups = 0,
       Compress = False, Development = False \<rparr>"

fun Apply :: "Options \<Rightarrow> Option list \<Rightarrow> Options" where
  "Apply o' [] = o'"
| "Apply o' (opt # opts) = Apply (opt o') opts"

definition WithLevel :: "string \<Rightarrow> Option" where
  "WithLevel level o' =
     (case UnmarshalText level of
        Some l \<Rightarrow> o'\<lparr>Level := level\<rparr>
      | None \<Rightarrow> o')"

definition WithFormat :: "string \<Rightarrow> Option" where
  "WithFormat format o' = o'\<lparr>Format := format\<rparr>"

definition WithOutputPaths :: "string list \<Rightarrow> Option" where
  "WithOutputPaths paths o' = o'\<lparr>OutputPaths := paths\<rparr>"

definition WithErrorOutputPaths :: "string list \<Rightarrow> Option" where
  "WithErrorOutputPaths paths o' = o'\<lparr>ErrorOutputPaths := paths\<rparr>"

definition WithDisableCaller :: "bool \<Rightarrow> Option" where
  "WithDisableCaller disable o' = o'\<lparr>DisableCaller := disable\<rparr>"

definition WithDisableStacktrace :: "bool \<Rightarrow> Option" where
  "WithDisableStacktrace disable o' = o'\<lparr>DisableStacktrace := disable\<rparr>"

definition WithFilename :: "string \<Rightarrow> Option" where
  "WithFilename filename o' = o'\<lparr>Filename := filename\<rparr>"

definition WithMaxSize :: "64 word \<Rightarrow> Option" where
  "WithMaxSize maxSize o' = o'\<lparr>MaxSize := maxSize\<rparr>"

definition WithMaxAge :: "64 word \<Rightarrow> Option" where
  "WithMaxAge maxAge o' = o'\<lparr>MaxAge := maxAge\<rparr>"

definition WithMaxBackups :: "64 word \<Rightarrow> Option" where
  "WithMaxBackups maxBackups o' = o'\<lparr>MaxBackups := maxBackups\<rparr>"

definition WithCompress :: "bool \<Rightarrow> Option" where
  "WithCompress compress o' = o'\<lparr>Compress := compress\<rparr>"

definition WithDevelopment :: "bool \<Rightarrow> Option" where
  "WithDevelopment development o' = o'\<lparr>Development := development\<rparr>"

text \<open>
  \<^verbatim>\<open>Config\<close> is the structure loaded from configuration files. Its twelve fields have
  the names of the fields of \<^verbatim>\<open>Options\<close>; a \<^verbatim>\<open>*Config\<close> is an optional value, \<open>None\<close>
  being the nil pointer.
\<close>

record Config =
  Level :: string
  Format :: string
  OutputPaths :: "string list"
  ErrorOutputPaths :: "string list"
  DisableCaller :: bool
  DisableStacktrace :: bool
  Filename :: string
  MaxSize :: "64 word"
  MaxAge :: "64 word"
  MaxBackups :: "64 word"
  Compress :: bool
  Development :: bool

text \<open>
  The errors of \<^verbatim>\<open>Validate\<close>, one constructor for each \<^verbatim>\<open>fmt.Errorf\<close> of the source,
  carrying the value that the message prints.
\<close>

datatype error =
  ErrNilConfig
| ErrLevel string
| ErrFormat string
| ErrMaxSize "64 word"
| ErrMaxAge "64 word"
| ErrMaxBackups "64 word"

text \<open>
  The two lookup tables of \<^verbatim>\<open>Validate\<close>. Reading a Go map at a missing key gives the
  zero value, \<open>False\<close>.
\<close>

definition validLevels :: "string \<Rightarrow> bool" where
  "validLevels k =
     (case map_of
        [(''debug'', True), (''info'', True), (''warn'', True),
         (''error'', True), (''dpanic'', True), (''panic'', True), (''fatal'', True)] k of
        Some b \<Rightarrow> b
      | None \<Rightarrow> False)"

definition validFormats :: "string \<Rightarrow> bool" where
  "validFormats k =
     (case map_of [(''json'', True), (''console'', True)] k of
        Some b \<Rightarrow> b
      | None \<Rightarrow> False)"

text \<open>\<^verbatim>\<open>Validate\<close> returns the first error found, \<open>None\<close> for nil.\<close>

definition Validate :: "Config option \<Rightarrow> error option" where
  "Validate cp =
     (case cp of
        None \<Rightarrow> Some ErrNilConfig
      | Some c \<Rightarrow>
          if Config.Level c \<noteq> [] \<and> \<not> validLevels (Config.Level c)
            then Some (ErrLevel (Config.Level c))
          else if Config.Format c \<noteq> [] \<and> \<not> validFormats (Config.Format c)
            then Some (ErrFormat (Config.Format c))
          else if Config.MaxSize c <s 0 then Some (ErrMaxSize (Config.MaxSize c))
          else if Config.MaxAge c <s 0 then Some (ErrMaxAge (Config.MaxAge c))
          else if Config.MaxBackups c <s 0 then Some (ErrMaxBackups (Config.MaxBackups c))
          else None)"

text \<open>
  \<^verbatim>\<open>ToLogOptionsFromConfig\<close> takes a \<^verbatim>\<open>LogConfigProvider\<close>, an interface value: \<open>None\<close> is
  the nil interface, which the function tests for, and \<open>Some c\<close> is the provider of this
  repository, a \<^verbatim>\<open>*Config\<close> that points to \<open>c\<close>, whose twelve getters return the fields. An
  interface value that holds a nil \<^verbatim>\<open>*Config\<close> is not a value of this type: on it the
  function passes its nil test and dereferences nil in the first getter. \<^verbatim>\<open>ToOptions\<close>
  tests the pointer before it makes the interface value, so it never passes one.
\<close>

definition ToLogOptionsFromConfig :: "Config option \<Rightarrow> Options" where
  "ToLogOptionsFromConfig cfg =
     (case cfg of
        None \<Rightarrow> NewOptions
      | Some c \<Rightarrow>
          NewOptions
            \<lparr> Options.Level := Config.Level c,
              Options.Format := Config.Format c,
              Options.OutputPaths := Config.OutputPaths c,
              Options.ErrorOutputPaths := Config.ErrorOutputPaths c,
              Options.DisableCaller := Config.DisableCaller c,
              Options.DisableStacktrace := Config.DisableStacktrace c,
              Options.Filename := Config.Filename c,
              Options.MaxSize := Config.MaxSize c,
              Options.MaxAge := Config.MaxAge c,
              Options.MaxBackups := Config.MaxBackups c,
              Options.Compress := Config.Compress c,
              Options.Development := Config.Development c \<rparr>)"

definition ToOptions :: "Config option \<Rightarrow> Options" where
  "ToOptions c = (case c of None \<Rightarrow> NewOptions | Some c' \<Rightarrow> ToLogOptionsFromConfig (Some c'))"

section \<open>The logger factory (log.go)\<close>

text \<open>
  The parts of the logging engine that the factory assembles. A sink is a console stream
  or a rotating file with its policy (filename, max size, max backups, max age, compress);
  a multi-sink is the list of its members, and a write to it is one write to each member.
\<close>

datatype WriteSyncer =
  Stdout
| Stderr
| Lumberjack string "64 word" "64 word" "64 word" bool

datatype Encoder = JSONEncoder | ConsoleEncoder

datatype Field = zap_String string string

datatype zap_Option =
  ErrorOutput "WriteSyncer list"
| AddCaller
| AddStacktrace zapcore_Level
| zap_Development

record zap_Logger =
  core_enc :: Encoder
  core_out :: "WriteSyncer list"
  core_level :: zapcore_Level
  core_fields :: "Field list"
  errorOutput :: "WriteSyncer list"
  addCaller :: bool
  addStack :: "zapcore_Level option"
  development :: bool

text \<open>
  \<^verbatim>\<open>zap.New(core, options...)\<close>: a logger over the core that writes its own errors to
  the error stream, records no caller and no stack trace, and is not in development
  mode, with the options applied in order.
\<close>

fun apply_zap_Option :: "zap_Logger \<Rightarrow> zap_Option \<Rightarrow> zap_Logger" where
  "apply_zap_Option l (ErrorOutput w) = l\<lparr>errorOutput := w\<rparr>"
| "apply_zap_Option l AddCaller = l\<lparr>addCaller := True\<rparr>"
| "apply_zap_Option l (AddStacktrace lvl) = l\<lparr>addStack := Some lvl\<rparr>"
| "apply_zap_Option l zap_Development = l\<lparr>development := True\<rparr>"

definition zap_New ::
  "Encoder \<Rightarrow> WriteSyncer list \<Rightarrow> zapcore_Level \<Rightarrow> zap_Option list \<Rightarrow> zap_Logger" where
  "zap_New enc ws lvl zapOpts =
     foldl apply_zap_Option
       \<lparr> core_enc = enc, core_out = ws, core_level = lvl, core_fields = [],
         errorOutput = [Stderr], addCaller = False, addStack = None,
         development = False \<rparr>
       zapOpts"

text \<open>
  The loop over the configured paths, the same in \<^verbatim>\<open>getWriteSyncer\<close> and in
  \<^verbatim>\<open>getErrorWriteSyncer\<close>: the state is the slice \<^verbatim>\<open>writers\<close> and the map
  \<^verbatim>\<open>consoleWriters\<close>.
\<close>

fun consoleLoop ::
  "string list \<Rightarrow> WriteSyncer list \<Rightarrow> (string \<rightharpoonup> bool) \<Rightarrow> WriteSyncer list" where
  "consoleLoop [] writers consoleWriters = writers"
| "consoleLoop (path # paths) writers consoleWriters =
     (let lowerPath = ToLower path in
      if consoleWriters lowerPath = None then
        if lowerPath = ''stdout'' then
          consoleLoop paths (writers @ [Stdout]) (consoleWriters(lowerPath \<mapsto> True))
        else if lowerPath = ''stderr'' then
          consoleLoop paths (writers @ [Stderr]) (consoleWriters(lowerPath \<mapsto> True))
        else consoleLoop paths writers consoleWriters
      else consoleLoop paths writers consoleWriters)"

definition getWriteSyncer :: "Options \<Rightarrow> WriteSyncer list" where
  "getWriteSyncer opts =
     (let writers =
        (if Options.Filename opts \<noteq> [] then
           [Lumberjack (Options.Filename opts) (Options.MaxSize opts)
              (Options.MaxBackups opts) (Options.MaxAge opts) (Options.Compress opts)]
         else [])
      in consoleLoop (Options.OutputPaths opts) writers Map.empty)"

definition getErrorWriteSyncer :: "Options \<Rightarrow> WriteSyncer list" where
  "getErrorWriteSyncer opts =
     (let writers = consoleLoop (Options.ErrorOutputPaths opts) [] Map.empty
      in if length writers = 0 then writers @ [Stderr] else writers)"

text \<open>
  \<^verbatim>\<open>New\<close> takes a pointer to the options and writes to it in development mode, so the
  model returns the logger together with the options as they are after the call.
\<close>

definition New :: "Options \<Rightarrow> zap_Logger \<times> Options" where
  "New opts0 =
     (let opts =
            (if Options.Development opts0 then
               (let opts1 =
                      (if Options.Level opts0 = ''info''
                       then opts0\<lparr>Options.Level := ''debug''\<rparr> else opts0)
                in if Options.DisableCaller opts1
                   then opts1\<lparr>Options.DisableCaller := False\<rparr> else opts1)
             else opts0);
          level = (case UnmarshalText (Options.Level opts) of Some l \<Rightarrow> l | None \<Rightarrow> InfoLevel);
          encoder = (if Options.Format opts = ''json'' then JSONEncoder else ConsoleEncoder);
          ws = getWriteSyncer opts;
          errorWS = getErrorWriteSyncer opts;
          zapOpts = [ErrorOutput errorWS];
          zapOpts = (if \<not> Options.DisableCaller opts then zapOpts @ [AddCaller] else zapOpts);
          zapOpts =
            (if \<not> Options.DisableStacktrace opts then
               zapOpts @ [AddStacktrace (if Options.Development opts then WarnLevel else ErrorLevel)]
             else zapOpts);
          zapOpts = (if Options.Development opts then zapOpts @ [zap_Development] else zapOpts)
      in (zap_New encoder ws level zapOpts, opts))"

section \<open>The global logger and the emission of entries (log.go)\<close>

text \<open>
  A \<^verbatim>\<open>*zap.Logger\<close> is a pointer to a logger that is never written after its
  construction: the model pairs the address with the logger, and two pointers are the
  same instance when their addresses are equal. Fresh addresses come from a counter.

  The package state is the variable \<^verbatim>\<open>std\<close>, the counter, and two traces for what the
  program does: \<open>calls\<close> has every entry handed to a logger, with the address of that
  logger; \<open>written\<close> has what the engine wrote, one element for each sink of the core
  when the severity of the entry is enabled, none when it is not.
\<close>

record Entry =
  entry_level :: zapcore_Level
  entry_msg :: string
  entry_fields :: "Field list"

type_synonym Logger_ptr = "nat \<times> zap_Logger"

record pkg_state =
  std :: Logger_ptr
  next_addr :: nat
  calls :: "(nat \<times> Entry) list"
  written :: "(WriteSyncer \<times> Encoder \<times> Entry) list"

text \<open>
  The methods \<^verbatim>\<open>Debug\<close>, \<^verbatim>\<open>Info\<close>, \<^verbatim>\<open>Warn\<close> and \<^verbatim>\<open>Error\<close> of a logger: the entry has
  the fields bound to the logger followed by the fields of the call. (Above \<^verbatim>\<open>error\<close>
  the engine writes the entry in the same way and then panics or exits; that escalation
  is not modelled.)
\<close>

definition Logger_log ::
  "Logger_ptr \<Rightarrow> zapcore_Level \<Rightarrow> string \<Rightarrow> Field list \<Rightarrow> pkg_state \<Rightarrow> pkg_state" where
  "Logger_log p lvl msg flds s =
     (let l = snd p;
          e = \<lparr> entry_level = lvl, entry_msg = msg, entry_fields = core_fields l @ flds \<rparr>
      in s\<lparr> calls := calls s @ [(fst p, e)],
            written := written s @
              (if level_num (core_level l) \<le> level_num lvl
               then map (\<lambda>w. (w, core_enc l, e)) (core_out l) else []) \<rparr>)"

definition Logger_Debug :: "Logger_ptr \<Rightarrow> string \<Rightarrow> Field list \<Rightarrow> pkg_state \<Rightarrow> pkg_state" where
  "Logger_Debug p msg flds s = Logger_log p DebugLevel msg flds s"

definition Logger_Info :: "Logger_ptr \<Rightarrow> string \<Rightarrow> Field list \<Rightarrow> pkg_state \<Rightarrow> pkg_state" where
  "Logger_Info p msg flds s = Logger_log p InfoLevel msg flds s"

definition Logger_Warn :: "Logger_ptr \<Rightarrow> string \<Rightarrow> Field list \<Rightarrow> pkg_state \<Rightarrow> pkg_state" where
  "Logger_Warn p msg flds s = Logger_log p WarnLevel msg flds s"

definition Logger_Error :: "Logger_ptr \<Rightarrow> string \<Rightarrow> Field list \<Rightarrow> pkg_state \<Rightarrow> pkg_state" where
  "Logger_Error p msg flds s = Logger_log p ErrorLevel msg flds s"

text \<open>
  \<^verbatim>\<open>Logger.With\<close>: the logger itself when there is no field, a clone with the fields
  added to the core otherwise.
\<close>

definition Logger_With :: "Logger_ptr \<Rightarrow> Field list \<Rightarrow> pkg_state \<Rightarrow> Logger_ptr \<times> pkg_state" where
  "Logger_With p flds s =
     (if length flds = 0 then (p, s)
      else ((next_addr s, (snd p)\<lparr>core_fields := core_fields (snd p) @ flds\<rparr>),
            s\<lparr>next_addr := Suc (next_addr s)\<rparr>))"

text \<open>
  The package initialiser, and \<^verbatim>\<open>Init\<close>, which replaces \<^verbatim>\<open>std\<close>. The mutex of
  \<^verbatim>\<open>Init\<close> orders concurrent calls; a run of the model is sequential.
\<close>

definition init :: pkg_state where
  "init = \<lparr> std = (0, fst (New NewOptions)), next_addr = 1, calls = [], written = [] \<rparr>"

definition Init :: "Option list \<Rightarrow> pkg_state \<Rightarrow> pkg_state" where
  "Init opts s =
     (let o' = Apply NewOptions opts
      in s\<lparr> std := (next_addr s, fst (New o')), next_addr := Suc (next_addr s) \<rparr>)"

definition Debug :: "string \<Rightarrow> Field list \<Rightarrow> pkg_state \<Rightarrow> pkg_state" where
  "Debug msg flds s = Logger_Debug (std s) msg flds s"

definition Info :: "string \<Rightarrow> Field list \<Rightarrow> pkg_state \<Rightarrow> pkg_state" where
  "Info msg flds s = Logger_Info (std s) msg flds s"

definition Warn :: "string \<Rightarrow> Field list \<Rightarrow> pkg_state \<Rightarrow> pkg_state" where
  "Warn msg flds s = Logger_Warn (std s) msg flds s"

definition Error :: "string \<Rightarrow> Field list \<Rightarrow> pkg_state \<Rightarrow> pkg_state" where
  "Error msg flds s = Logger_Error (std s) msg flds s"

definition GetLogger :: "pkg_state \<Rightarrow> Logger_ptr" where
  "GetLogger s = std s"

section \<open>Contexts and the identifiers they carry (log.go)\<close>

text \<open>
  A context is a chain of key/value bindings over the background context; a lookup
  returns the innermost binding of the key, \<open>None\<close> for nil. The keys are the two
  private keys of this package, the private key under which the tracing library keeps
  the current span, and the keys of other packages. A value is a string, a span (given
  by its span context) or something else. A \<^verbatim>\<open>context.Context\<close> that may be nil is an
  optional context.
\<close>

record SpanContext =
  traceID :: "128 word"
  spanID :: "64 word"

datatype ctx_key = traceIDKey | requestIDKey | currentSpanKey | foreignKey string

datatype ctx_val = StringVal string | SpanVal SpanContext | ForeignVal

datatype Context = Background | WithValue Context ctx_key ctx_val

datatype panic = NilParentContext | NilPointerDereference

fun Value :: "Context \<Rightarrow> ctx_key \<Rightarrow> ctx_val option" where
  "Value Background k = None"
| "Value (WithValue parent k' v) k = (if k = k' then Some v else Value parent k)"

text \<open>
  The tracing library: a span context is valid when its trace id and its span id are
  both non-zero; the span of a context without one, and of the nil context, is the no-op
  span, whose span context is zero; a trace id prints as 32 lower-case hexadecimal digits.
\<close>

definition IsValid :: "SpanContext \<Rightarrow> bool" where
  "IsValid sc = (traceID sc \<noteq> 0 \<and> spanID sc \<noteq> 0)"

definition noopSpan :: SpanContext where
  "noopSpan = \<lparr> traceID = 0, spanID = 0 \<rparr>"

definition SpanFromContext :: "Context option \<Rightarrow> SpanContext" where
  "SpanFromContext ctx =
     (case ctx of
        None \<Rightarrow> noopSpan
      | Some c \<Rightarrow> (case Value c currentSpanKey of Some (SpanVal sc) \<Rightarrow> sc | _ \<Rightarrow> noopSpan))"

definition hexdigit :: "nat \<Rightarrow> char" where
  "hexdigit n = ''0123456789abcdef'' ! (n mod 16)"

definition TraceID_String :: "128 word \<Rightarrow> string" where
  "TraceID_String t = map (\<lambda>i. hexdigit (unat (drop_bit (4 * (31 - i)) t))) [0..<32]"

text \<open>The setters; \<^verbatim>\<open>context.WithValue\<close> panics on a nil parent.\<close>

definition ContextWithTraceID :: "Context option \<Rightarrow> string \<Rightarrow> panic + Context" where
  "ContextWithTraceID ctx tid =
     (case ctx of
        None \<Rightarrow> Inl NilParentContext
      | Some c \<Rightarrow> Inr (WithValue c traceIDKey (StringVal tid)))"

definition ContextWithRequestID :: "Context option \<Rightarrow> string \<Rightarrow> panic + Context" where
  "ContextWithRequestID ctx rid =
     (case ctx of
        None \<Rightarrow> Inl NilParentContext
      | Some c \<Rightarrow> Inr (WithValue c requestIDKey (StringVal rid)))"

text \<open>
  \<^verbatim>\<open>extractTraceID\<close> has no nil check of its own: on the nil context the span is the
  no-op span and the call of \<^verbatim>\<open>ctx.Value\<close> is a nil dereference.
\<close>

definition extractTraceID :: "Context option \<Rightarrow> panic + string" where
  "extractTraceID ctx =
     (let span = SpanFromContext ctx in
      if IsValid span then Inr (TraceID_String (traceID span))
      else
        (case ctx of
           None \<Rightarrow> Inl NilPointerDereference
         | Some c \<Rightarrow>
             (case Value c traceIDKey of
                Some (StringVal t) \<Rightarrow> if t \<noteq> [] then Inr t else Inr []
              | _ \<Rightarrow> Inr [])))"

definition TraceIDFromContext :: "Context option \<Rightarrow> panic + string" where
  "TraceIDFromContext ctx = extractTraceID ctx"

definition RequestIDFromContext :: "Context option \<Rightarrow> string" where
  "RequestIDFromContext ctx =
     (case ctx of
        None \<Rightarrow> []
      | Some c \<Rightarrow> (case Value c requestIDKey of Some (StringVal r) \<Rightarrow> r | _ \<Rightarrow> []))"

definition FromContext :: "Context option \<Rightarrow> pkg_state \<Rightarrow> panic + Logger_ptr \<times> pkg_state" where
  "FromContext ctx s =
     (case ctx of
        None \<Rightarrow> Inr (std s, s)
      | Some c \<Rightarrow>
          (case extractTraceID (Some c) of
             Inl e \<Rightarrow> Inl e
           | Inr tid \<Rightarrow>
               (let flds = (if tid \<noteq> [] then [zap_String ''traceID'' tid] else []);
                    flds =
                      (case Value c requestIDKey of
                         Some (StringVal rid) \<Rightarrow>
                           if rid \<noteq> [] then flds @ [zap_String ''requestID'' rid] else flds
                       | _ \<Rightarrow> flds)
                in if length flds = 0 then Inr (std s, s)
                   else Inr (Logger_With (std s) flds s))))"

section \<open>The framework writer adapters\<close>

record zapWriter =
  logger :: Logger_ptr
  level :: zapcore_Level

definition GinWriter :: "pkg_state \<Rightarrow> zapWriter" where
  "GinWriter s = \<lparr> logger = std s, level = InfoLevel \<rparr>"

definition GinErrorWriter :: "pkg_state \<Rightarrow> zapWriter" where
  "GinErrorWriter s = \<lparr> logger = std s, level = ErrorLevel \<rparr>"

text \<open>\<^verbatim>\<open>Write\<close> returns \<^verbatim>\<open>(n, err)\<close>, with \<open>None\<close> for the nil error.\<close>

definition Write :: "zapWriter \<Rightarrow> string \<Rightarrow> pkg_state \<Rightarrow> (int \<times> error option) \<times> pkg_state" where
  "Write w p s =
     (let msg = p;
          msg = (if length msg > 0 \<and> msg ! (length msg - 1) = CHR 0x0A
                 then take (length msg - 1) msg else msg);
          s' = (case level w of
                  DebugLevel \<Rightarrow> Logger_Debug (logger w) msg [] s
                | InfoLevel \<Rightarrow> Logger_Info (logger w) msg [] s
                | WarnLevel \<Rightarrow> Logger_Warn (logger w) msg [] s
                | ErrorLevel \<Rightarrow> Logger_Error (logger w) msg [] s
                | _ \<Rightarrow> Logger_Info (logger w) msg [] s)
      in ((int (length p), None), s'))"

section \<open>Properties of the options\<close>

subsection \<open>The level parser\<close>

lemma lower_char_not_upper:
  "\<not> (65 \<le> (of_char (lower_char c) :: nat) \<and> (of_char (lower_char c) :: nat) \<le> 90)"
  by (simp add: lower_char_def Let_def)

lemma ToLower_Nil_iff: "ToLower s = [] \<longleftrightarrow> s = []"
  by (cases s) simp_all

lemma ToLower_ascii: "is_ascii s \<Longrightarrow> ToLower s = map lower_char s"
  by (induction s) (auto simp: is_ascii_def)

lemma ToLower_hd_not_upper:
  assumes "ToLower s = c # cs"
  shows "\<not> (65 \<le> (of_char c :: nat) \<and> (of_char c :: nat) \<le> 90)"
proof (cases s)
  case Nil
  with assms show ?thesis by simp
next
  case (Cons d ds)
  then have "c = CHR ''i'' \<or> c = CHR ''k'' \<or> c = lower_char d"
    using assms by (auto split: if_splits)
  then show ?thesis using lower_char_not_upper [of d] by auto
qed

lemma ToLower_not_upper_names:
  "ToLower s \<noteq> ''DEBUG''" "ToLower s \<noteq> ''INFO''" "ToLower s \<noteq> ''WARN''"
  "ToLower s \<noteq> ''WARNING''"
  "ToLower s \<noteq> ''ERROR''" "ToLower s \<noteq> ''DPANIC''" "ToLower s \<noteq> ''PANIC''"
  "ToLower s \<noteq> ''FATAL''"
  using ToLower_hd_not_upper [of s "CHR ''D''"] ToLower_hd_not_upper [of s "CHR ''I''"]
    ToLower_hd_not_upper [of s "CHR ''W''"] ToLower_hd_not_upper [of s "CHR ''E''"]
    ToLower_hd_not_upper [of s "CHR ''P''"] ToLower_hd_not_upper [of s "CHR ''F''"]
  by (simp_all, blast+)

lemma ToLower_names:
  "ToLower ''debug'' = ''debug''" "ToLower ''DEBUG'' = ''debug''"
  "ToLower ''info'' = ''info''" "ToLower ''INFO'' = ''info''"
  "ToLower ''warn'' = ''warn''" "ToLower ''WARN'' = ''warn''"
  "ToLower ''warning'' = ''warning''" "ToLower ''WARNING'' = ''warning''"
  "ToLower ''error'' = ''error''" "ToLower ''ERROR'' = ''error''"
  "ToLower ''dpanic'' = ''dpanic''" "ToLower ''DPANIC'' = ''dpanic''"
  "ToLower ''panic'' = ''panic''" "ToLower ''PANIC'' = ''panic''"
  "ToLower ''fatal'' = ''fatal''" "ToLower ''FATAL'' = ''fatal''"
  by code_simp+

lemma unmarshalText_accepts_iff:
  "unmarshalText t \<noteq> None \<longleftrightarrow>
     t \<in> set severities \<or> t = ''warning'' \<or> t = [] \<or>
     t \<in> {''DEBUG'', ''INFO'', ''WARN'', ''WARNING'', ''ERROR'', ''DPANIC'', ''PANIC'',
          ''FATAL''}"
  unfolding unmarshalText_def severities_def by auto

lemma upper_names_lower:
  "t \<in> {''DEBUG'', ''INFO'', ''WARN'', ''WARNING'', ''ERROR'', ''DPANIC'', ''PANIC'',
        ''FATAL''}
   \<Longrightarrow> ToLower t \<in> set severities \<or> ToLower t = ''warning''"
  unfolding severities_def using ToLower_names by auto

lemma lower_names_lower: "t \<in> set severities \<or> t = ''warning'' \<Longrightarrow> ToLower t = t"
  unfolding severities_def using ToLower_names by auto

lemma ToLower_notin_upper:
  "ToLower t \<notin> {''DEBUG'', ''INFO'', ''WARN'', ''WARNING'', ''ERROR'', ''DPANIC'', ''PANIC'',
                ''FATAL''}"
  using ToLower_not_upper_names [of t] by (simp only: insert_iff empty_iff) blast

lemma UnmarshalText_accepts_iff:
  "UnmarshalText t \<noteq> None \<longleftrightarrow>
     ToLower t \<in> set severities \<or> ToLower t = ''warning'' \<or> t = []"
proof -
  have split: "UnmarshalText t \<noteq> None \<longleftrightarrow>
          unmarshalText t \<noteq> None \<or> unmarshalText (ToLower t) \<noteq> None"
    by (simp add: UnmarshalText_def split: option.splits)
  have direct: "unmarshalText t \<noteq> None \<Longrightarrow>
      ToLower t \<in> set severities \<or> ToLower t = ''warning'' \<or> t = []"
    using upper_names_lower [of t] lower_names_lower [of t]
    unfolding unmarshalText_accepts_iff by metis
  have lowered: "unmarshalText (ToLower t) \<noteq> None \<longleftrightarrow>
      ToLower t \<in> set severities \<or> ToLower t = ''warning'' \<or> t = []"
    using ToLower_notin_upper [of t] ToLower_Nil_iff [of t]
    unfolding unmarshalText_accepts_iff by blast
  show ?thesis using split direct lowered by blast
qed

subsection \<open>WithLevel\<close>

text \<open>
  Claim C1, as amended. For every string, \<^verbatim>\<open>WithLevel\<close> stores the string, exactly as
  given, when the level parser of the logging engine accepts it, and leaves the whole
  configuration unchanged otherwise. The parser accepts a string exactly when its
  lower-casing is one of the seven severities or \<^verbatim>\<open>warning\<close>, or when it is the empty
  string (which it takes for \<^verbatim>\<open>info\<close>).
\<close>

theorem WithLevel_stores_iff_parsed:
  "WithLevel lvl o' =
     (if ToLower lvl \<in> set severities \<or> ToLower lvl = ''warning'' \<or> lvl = []
      then o'\<lparr>Options.Level := lvl\<rparr> else o')"
  using UnmarshalText_accepts_iff [of lvl]
  by (cases "UnmarshalText lvl") (simp_all add: WithLevel_def)

text \<open>
  The theorem at an upper-case name, at \<^verbatim>\<open>warning\<close>, at \<^verbatim>\<open>INFO\<close> written with U+0130 for
  its first letter, and at two strings that the parser rejects.
\<close>

theorem WithLevel_stores_iff_parsed_witness:
  "WithLevel ''WARN'' NewOptions = NewOptions\<lparr>Options.Level := ''WARN''\<rparr> \<and>
   WithLevel ''warning'' NewOptions = NewOptions\<lparr>Options.Level := ''warning''\<rparr> \<and>
   WithLevel (CHR 0xC4 # CHR 0xB0 # ''NFO'') NewOptions =
     NewOptions\<lparr>Options.Level := CHR 0xC4 # CHR 0xB0 # ''NFO''\<rparr> \<and>
   WithLevel ''verbose'' NewOptions = NewOptions \<and>
   WithLevel ''invalid-level'' NewOptions = NewOptions"
proof -
  have a: "ToLower ''WARN'' \<in> set severities" by code_simp
  have b: "ToLower ''warning'' = ''warning''" by code_simp
  have c: "ToLower (CHR 0xC4 # CHR 0xB0 # ''NFO'') \<in> set severities" by code_simp
  have d: "\<not> (ToLower ''verbose'' \<in> set severities \<or> ToLower ''verbose'' = ''warning'' \<or>
      ''verbose'' = [])"
    by code_simp
  have e: "\<not> (ToLower ''invalid-level'' \<in> set severities \<or>
      ToLower ''invalid-level'' = ''warning'' \<or> ''invalid-level'' = [])"
    by code_simp
  show ?thesis
    using WithLevel_stores_iff_parsed [of "''WARN''" NewOptions]
      WithLevel_stores_iff_parsed [of "''warning''" NewOptions]
      WithLevel_stores_iff_parsed [of "CHR 0xC4 # CHR 0xB0 # ''NFO''" NewOptions]
      WithLevel_stores_iff_parsed [of "''verbose''" NewOptions]
      WithLevel_stores_iff_parsed [of "''invalid-level''" NewOptions]
      a b c d e
    by (simp only: if_True if_False simp_thms)
qed

text \<open>
  Claim C1 as stated fails: the empty string and \<^verbatim>\<open>INFO\<close> are none of the seven
  severities, and \<^verbatim>\<open>WithLevel\<close> stores both over the default \<^verbatim>\<open>info\<close>.
\<close>

theorem WithLevel_counterexample:
  "[] \<notin> set severities \<and> ''INFO'' \<notin> set severities \<and>
   Options.Level NewOptions = ''info'' \<and>
   Options.Level (WithLevel [] NewOptions) = [] \<and>
   Options.Level (WithLevel ''INFO'' NewOptions) = ''INFO''"
proof -
  have a: "UnmarshalText [] = Some InfoLevel" by code_simp
  have b: "UnmarshalText ''INFO'' = Some InfoLevel" by code_simp
  have c: "[] \<notin> set severities" "''INFO'' \<notin> set severities" by code_simp+
  show ?thesis using a b c by (simp add: WithLevel_def NewOptions_def)
qed

subsection \<open>Validate\<close>

lemma validLevels_iff: "validLevels k \<longleftrightarrow> k \<in> set severities"
  unfolding validLevels_def severities_def by simp

lemma validFormats_iff: "validFormats k \<longleftrightarrow> k = ''json'' \<or> k = ''console''"
  unfolding validFormats_def by simp

text \<open>
  Claim C4, as amended. \<^verbatim>\<open>Validate\<close> returns an error if and only if the configuration
  is nil, or its level is non-empty and none of the seven severities, or its format is
  non-empty and neither \<^verbatim>\<open>json\<close> nor \<^verbatim>\<open>console\<close>, or at least one of \<^verbatim>\<open>MaxSize\<close>,
  \<^verbatim>\<open>MaxAge\<close> and \<^verbatim>\<open>MaxBackups\<close> is negative.
\<close>

theorem Validate_error_iff:
  "Validate None \<noteq> None \<and>
   (Validate (Some c) \<noteq> None \<longleftrightarrow>
      Config.Level c \<noteq> [] \<and> Config.Level c \<notin> set severities \<or>
      Config.Format c \<noteq> [] \<and> Config.Format c \<noteq> ''json'' \<and> Config.Format c \<noteq> ''console'' \<or>
      sint (Config.MaxSize c) < 0 \<or> sint (Config.MaxAge c) < 0 \<or>
      sint (Config.MaxBackups c) < 0)"
  by (simp add: Validate_def validLevels_iff validFormats_iff word_sless_alt)

text \<open>
  The theorem at two configurations: a negative \<^verbatim>\<open>MaxAge\<close> is reported, and a
  configuration with valid names and no negative number passes.
\<close>

theorem Validate_error_iff_witness:
  "Validate (Some \<lparr> Level = ''info'', Format = ''json'', OutputPaths = [''stdout''],
       ErrorOutputPaths = [''stderr''], DisableCaller = False, DisableStacktrace = False,
       Filename = [], MaxSize = 100, MaxAge = - 1, MaxBackups = 3, Compress = False,
       Development = False \<rparr>) = Some (ErrMaxAge (- 1)) \<and>
   sint (- 1 :: 64 word) < 0 \<and>
   Validate (Some \<lparr> Level = ''info'', Format = ''json'', OutputPaths = [''stdout''],
       ErrorOutputPaths = [''stderr''], DisableCaller = False, DisableStacktrace = False,
       Filename = [], MaxSize = 100, MaxAge = 7, MaxBackups = 3, Compress = False,
       Development = False \<rparr>) = None"
proof -
  have sev: "''info'' \<in> set severities" by (simp add: severities_def)
  have neg: "sint (- 1 :: 64 word) < 0" by simp
  have pos: "\<not> sint (100 :: 64 word) < 0" "\<not> sint (7 :: 64 word) < 0"
    "\<not> sint (3 :: 64 word) < 0" by simp_all
  have e: "Validate (Some \<lparr> Level = ''info'', Format = ''json'', OutputPaths = [''stdout''],
       ErrorOutputPaths = [''stderr''], DisableCaller = False, DisableStacktrace = False,
       Filename = [], MaxSize = 100, MaxAge = - 1, MaxBackups = 3, Compress = False,
       Development = False \<rparr>) = Some (ErrMaxAge (- 1))"
    using sev neg pos by (simp add: Validate_def validLevels_iff validFormats_iff word_sless_alt)
  have n: "Validate (Some \<lparr> Level = ''info'', Format = ''json'', OutputPaths = [''stdout''],
       ErrorOutputPaths = [''stderr''], DisableCaller = False, DisableStacktrace = False,
       Filename = [], MaxSize = 100, MaxAge = 7, MaxBackups = 3, Compress = False,
       Development = False \<rparr>) = None"
    using Validate_error_iff [of "\<lparr> Level = ''info'', Format = ''json'',
       OutputPaths = [''stdout''],
       ErrorOutputPaths = [''stderr''], DisableCaller = False, DisableStacktrace = False,
       Filename = [], MaxSize = 100, MaxAge = 7, MaxBackups = 3, Compress = False,
       Development = False \<rparr>"] sev pos
    by simp
  show ?thesis using e neg n by simp
qed

text \<open>
  Claim C4 as stated fails: a configuration whose three numbers are zero and whose level
  is \<^verbatim>\<open>bogus\<close> is rejected.
\<close>

theorem Validate_counterexample:
  "Validate (Some \<lparr> Level = ''bogus'', Format = ''console'', OutputPaths = [],
       ErrorOutputPaths = [], DisableCaller = False, DisableStacktrace = False,
       Filename = [], MaxSize = 0, MaxAge = 0, MaxBackups = 0, Compress = False,
       Development = False \<rparr>) = Some (ErrLevel ''bogus'') \<and>
   \<not> sint (0 :: 64 word) < 0"
  by (simp add: Validate_def validLevels_iff severities_def)

section \<open>Properties of the logger factory\<close>

subsection \<open>New and the options it is given\<close>

lemma New_snd:
  "snd (New opts) =
     (if Options.Development opts
      then opts\<lparr> Options.Level :=
                    (if Options.Level opts = ''info'' then ''debug'' else Options.Level opts),
                  Options.DisableCaller := False \<rparr>
      else opts)"
  by (cases opts) (simp add: New_def Let_def)

lemma zap_New_addCaller:
  "addCaller (zap_New enc ws lvl zapOpts) = (AddCaller \<in> set zapOpts)"
proof -
  have "addCaller (foldl apply_zap_Option l zapOpts) = (addCaller l \<or> AddCaller \<in> set zapOpts)"
    for l
  proof (induction zapOpts arbitrary: l)
    case Nil
    then show ?case by simp
  next
    case (Cons x xs)
    then show ?case by (cases x) auto
  qed
  then show ?thesis by (simp add: zap_New_def)
qed

lemma zap_New_core:
  "core_level (zap_New enc ws lvl zapOpts) = lvl"
  "core_out (zap_New enc ws lvl zapOpts) = ws"
  "core_enc (zap_New enc ws lvl zapOpts) = enc"
  "core_fields (zap_New enc ws lvl zapOpts) = []"
proof -
  have "core_level (foldl apply_zap_Option l zapOpts) = core_level l \<and>
        core_out (foldl apply_zap_Option l zapOpts) = core_out l \<and>
        core_enc (foldl apply_zap_Option l zapOpts) = core_enc l \<and>
        core_fields (foldl apply_zap_Option l zapOpts) = core_fields l" for l
  proof (induction zapOpts arbitrary: l)
    case Nil
    then show ?case by simp
  next
    case (Cons x xs)
    then show ?case by (cases x) simp_all
  qed
  then show "core_level (zap_New enc ws lvl zapOpts) = lvl"
    "core_out (zap_New enc ws lvl zapOpts) = ws"
    "core_enc (zap_New enc ws lvl zapOpts) = enc"
    "core_fields (zap_New enc ws lvl zapOpts) = []"
    by (simp_all add: zap_New_def)
qed

lemma New_core_level:
  "core_level (fst (New opts)) =
     (case UnmarshalText (Options.Level (snd (New opts))) of Some l \<Rightarrow> l | None \<Rightarrow> InfoLevel)"
  by (simp add: New_def Let_def zap_New_core)

lemma New_core_out: "core_out (fst (New opts)) = getWriteSyncer (snd (New opts))"
  by (simp add: New_def Let_def zap_New_core)

lemma New_addCaller:
  "addCaller (fst (New opts)) = (\<not> Options.DisableCaller (snd (New opts)))"
  by (simp add: New_def Let_def zap_New_addCaller)

lemma UnmarshalText_debug: "UnmarshalText ''debug'' = Some DebugLevel"
  by (simp add: UnmarshalText_def unmarshalText_def)

text \<open>
  Claim C3, as amended. Building a logger leaves the configuration unchanged when the
  development flag is unset. When it is set, \<^verbatim>\<open>New\<close> writes to the \<^verbatim>\<open>Options\<close> it was
  given: the level \<^verbatim>\<open>info\<close> is replaced by \<^verbatim>\<open>debug\<close> and \<^verbatim>\<open>DisableCaller\<close> is set to
  false; every other field keeps its value.
\<close>

theorem New_writes_options_in_development:
  "snd (New opts) =
     (if Options.Development opts
      then opts\<lparr> Options.Level :=
                    (if Options.Level opts = ''info'' then ''debug'' else Options.Level opts),
                  Options.DisableCaller := False \<rparr>
      else opts)"
  by (rule New_snd)

text \<open>
  The theorem at the default options and at options with the development flag.
\<close>

theorem New_writes_options_in_development_witness:
  "snd (New NewOptions) = NewOptions \<and>
   snd (New (NewOptions\<lparr>Options.Development := True, Options.DisableCaller := True\<rparr>)) =
     NewOptions\<lparr>Options.Development := True, Options.DisableCaller := False,
       Options.Level := ''debug''\<rparr>"
  using New_writes_options_in_development [of NewOptions]
    New_writes_options_in_development
      [of "NewOptions\<lparr>Options.Development := True, Options.DisableCaller := True\<rparr>"]
  by (simp add: NewOptions_def)

text \<open>
  Claim C3 as stated fails: with the development flag set, the level and the
  \<^verbatim>\<open>DisableCaller\<close> flag of the passed options differ after the call.
\<close>

theorem New_counterexample:
  "Options.Level (NewOptions\<lparr>Options.Development := True, Options.DisableCaller := True\<rparr>)
     = ''info'' \<and>
   Options.Level
     (snd (New (NewOptions\<lparr>Options.Development := True, Options.DisableCaller := True\<rparr>)))
     = ''debug'' \<and>
   Options.DisableCaller
     (NewOptions\<lparr>Options.Development := True, Options.DisableCaller := True\<rparr>) \<and>
   \<not> Options.DisableCaller
     (snd (New (NewOptions\<lparr>Options.Development := True, Options.DisableCaller := True\<rparr>)))"
  by (simp add: New_snd NewOptions_def)

text \<open>
  Claim C9. With the development flag set, the level is \<^verbatim>\<open>debug\<close> when the configured
  level is \<^verbatim>\<open>info\<close> and is the configured level otherwise (in the options after the call,
  and, through the parser and its fallback, in the core of the logger), and the logger
  records the caller whatever \<^verbatim>\<open>DisableCaller\<close> says. With the flag unset, the level is
  the configured one and the caller is recorded exactly when \<^verbatim>\<open>DisableCaller\<close> is false.
\<close>

theorem New_development_adjustments:
  "(Options.Development opts \<longrightarrow>
      Options.Level (snd (New opts)) =
        (if Options.Level opts = ''info'' then ''debug'' else Options.Level opts) \<and>
      core_level (fst (New opts)) =
        (if Options.Level opts = ''info'' then DebugLevel
         else case UnmarshalText (Options.Level opts) of Some l \<Rightarrow> l | None \<Rightarrow> InfoLevel) \<and>
      addCaller (fst (New opts))) \<and>
   (\<not> Options.Development opts \<longrightarrow>
      Options.Level (snd (New opts)) = Options.Level opts \<and>
      core_level (fst (New opts)) =
        (case UnmarshalText (Options.Level opts) of Some l \<Rightarrow> l | None \<Rightarrow> InfoLevel) \<and>
      addCaller (fst (New opts)) = (\<not> Options.DisableCaller opts))"
  by (simp add: New_core_level New_addCaller New_snd UnmarshalText_debug)

text \<open>
  The theorem at options with caller suppression, with and without the development flag.
\<close>

theorem New_development_adjustments_witness:
  "Options.Development (NewOptions\<lparr>Options.Development := True, Options.DisableCaller := True\<rparr>) \<and>
   core_level (fst (New (NewOptions\<lparr>Options.Development := True, Options.DisableCaller := True\<rparr>)))
     = DebugLevel \<and>
   addCaller (fst (New (NewOptions\<lparr>Options.Development := True, Options.DisableCaller := True\<rparr>))) \<and>
   \<not> Options.Development (NewOptions\<lparr>Options.DisableCaller := True\<rparr>) \<and>
   Options.Level (snd (New (NewOptions\<lparr>Options.DisableCaller := True\<rparr>))) = ''info'' \<and>
   \<not> addCaller (fst (New (NewOptions\<lparr>Options.DisableCaller := True\<rparr>)))"
  using New_development_adjustments
      [of "NewOptions\<lparr>Options.Development := True, Options.DisableCaller := True\<rparr>"]
    New_development_adjustments [of "NewOptions\<lparr>Options.DisableCaller := True\<rparr>"]
  by (simp add: NewOptions_def)

subsection \<open>The sinks of normal output\<close>

lemma consoleLoop_set:
  assumes "m ''stdout'' = None \<longleftrightarrow> Stdout \<notin> set ws"
    and "m ''stderr'' = None \<longleftrightarrow> Stderr \<notin> set ws"
  shows "set (consoleLoop paths ws m) =
           set ws \<union> {w. w = Stdout \<and> (\<exists>p \<in> set paths. ToLower p = ''stdout'')}
                  \<union> {w. w = Stderr \<and> (\<exists>p \<in> set paths. ToLower p = ''stderr'')}"
  using assms
proof (induction paths arbitrary: ws m)
  case Nil
  then show ?case by simp
next
  case (Cons path paths)
  have skip: "set (consoleLoop paths ws m) =
      set ws \<union> {w. w = Stdout \<and> (\<exists>p \<in> set paths. ToLower p = ''stdout'')}
             \<union> {w. w = Stderr \<and> (\<exists>p \<in> set paths. ToLower p = ''stderr'')}"
    using Cons.prems by (intro Cons.IH)
  show ?case
  proof (cases "ToLower path = ''stdout''")
    case out: True
    show ?thesis
    proof (cases "m ''stdout''")
      case None
      have step: "consoleLoop (path # paths) ws m =
          consoleLoop paths (ws @ [Stdout]) (m(''stdout'' \<mapsto> True))"
        using out None by (simp add: Let_def)
      have "set (consoleLoop paths (ws @ [Stdout]) (m(''stdout'' \<mapsto> True))) =
              set (ws @ [Stdout])
                \<union> {w. w = Stdout \<and> (\<exists>p \<in> set paths. ToLower p = ''stdout'')}
                \<union> {w. w = Stderr \<and> (\<exists>p \<in> set paths. ToLower p = ''stderr'')}"
        using Cons.prems by (intro Cons.IH) simp_all
      then show ?thesis unfolding step using out by auto
    next
      case (Some b)
      then have seen: "Stdout \<in> set ws" using Cons.prems by auto
      have step: "consoleLoop (path # paths) ws m = consoleLoop paths ws m"
        using out Some by (simp add: Let_def)
      show ?thesis unfolding step using skip out seen by auto
    qed
  next
    case nout: False
    show ?thesis
    proof (cases "ToLower path = ''stderr''")
      case err: True
      show ?thesis
      proof (cases "m ''stderr''")
        case None
        have step: "consoleLoop (path # paths) ws m =
            consoleLoop paths (ws @ [Stderr]) (m(''stderr'' \<mapsto> True))"
          using err None by (simp add: Let_def)
        have "set (consoleLoop paths (ws @ [Stderr]) (m(''stderr'' \<mapsto> True))) =
                set (ws @ [Stderr])
                  \<union> {w. w = Stdout \<and> (\<exists>p \<in> set paths. ToLower p = ''stdout'')}
                  \<union> {w. w = Stderr \<and> (\<exists>p \<in> set paths. ToLower p = ''stderr'')}"
          using Cons.prems by (intro Cons.IH) simp_all
        then show ?thesis unfolding step using err by auto
      next
        case (Some b)
        then have seen: "Stderr \<in> set ws" using Cons.prems by auto
        have step: "consoleLoop (path # paths) ws m = consoleLoop paths ws m"
          using err Some by (simp add: Let_def)
        show ?thesis unfolding step using skip err seen by auto
      qed
    next
      case nerr: False
      have step: "consoleLoop (path # paths) ws m = consoleLoop paths ws m"
        using nout nerr by (simp add: Let_def)
      show ?thesis unfolding step using skip nout nerr by auto
    qed
  qed
qed

lemma consoleLoop_distinct:
  assumes "m ''stdout'' = None \<longleftrightarrow> Stdout \<notin> set ws"
    and "m ''stderr'' = None \<longleftrightarrow> Stderr \<notin> set ws"
    and "distinct ws"
  shows "distinct (consoleLoop paths ws m)"
  using assms
proof (induction paths arbitrary: ws m)
  case Nil
  then show ?case by simp
next
  case (Cons path paths)
  have skip: "distinct (consoleLoop paths ws m)"
    using Cons.prems by (intro Cons.IH)
  have out: "distinct (consoleLoop paths (ws @ [Stdout]) (m(''stdout'' \<mapsto> True)))"
    if "m ''stdout'' = None"
    using Cons.prems that by (intro Cons.IH) simp_all
  have err: "distinct (consoleLoop paths (ws @ [Stderr]) (m(''stderr'' \<mapsto> True)))"
    if "m ''stderr'' = None"
    using Cons.prems that by (intro Cons.IH) simp_all
  show ?case using skip out err by (simp add: Let_def)
qed

lemma getWriteSyncer_set:
  "set (getWriteSyncer opts) =
     {w. w = Lumberjack (Options.Filename opts) (Options.MaxSize opts)
               (Options.MaxBackups opts) (Options.MaxAge opts) (Options.Compress opts)
         \<and> Options.Filename opts \<noteq> []}
     \<union> {w. w = Stdout \<and> (\<exists>p \<in> set (Options.OutputPaths opts). ToLower p = ''stdout'')}
     \<union> {w. w = Stderr \<and> (\<exists>p \<in> set (Options.OutputPaths opts). ToLower p = ''stderr'')}"
  unfolding getWriteSyncer_def Let_def
  by (subst consoleLoop_set) auto

lemma getWriteSyncer_distinct: "distinct (getWriteSyncer opts)"
  unfolding getWriteSyncer_def Let_def
  by (rule consoleLoop_distinct) simp_all

text \<open>
  Claim C8. The sinks of normal output: the standard output stream is a sink exactly when
  some configured destination is \<^verbatim>\<open>stdout\<close> up to letter case, the standard error
  stream exactly when some destination is \<^verbatim>\<open>stderr\<close> up to letter case, and a rotating
  file is a sink exactly when the filename is non-empty, with the configured policy and
  whatever the destinations are. No sink occurs twice. As a sink is one of the three,
  every other destination name adds nothing.
\<close>

theorem getWriteSyncer_sinks:
  "(Stdout \<in> set (getWriteSyncer opts) \<longleftrightarrow>
      (\<exists>p \<in> set (Options.OutputPaths opts). ToLower p = ''stdout'')) \<and>
   (Stderr \<in> set (getWriteSyncer opts) \<longleftrightarrow>
      (\<exists>p \<in> set (Options.OutputPaths opts). ToLower p = ''stderr'')) \<and>
   (Lumberjack f a b c d \<in> set (getWriteSyncer opts) \<longleftrightarrow>
      Options.Filename opts \<noteq> [] \<and> f = Options.Filename opts \<and> a = Options.MaxSize opts \<and>
      b = Options.MaxBackups opts \<and> c = Options.MaxAge opts \<and> d = Options.Compress opts) \<and>
   distinct (getWriteSyncer opts)"
  unfolding getWriteSyncer_set using getWriteSyncer_distinct [of opts] by auto

text \<open>
  The theorem at a configuration that names the output stream twice, a file path and the
  error stream, and has a filename.
\<close>

theorem getWriteSyncer_sinks_witness:
  "getWriteSyncer
     (NewOptions\<lparr>Options.OutputPaths := [''STDOUT'', ''file.log'', ''stdout'', ''StdErr''],
        Options.Filename := ''app.log''\<rparr>) =
     [Lumberjack ''app.log'' 0 0 0 False, Stdout, Stderr] \<and>
   Stdout \<in> set (getWriteSyncer
     (NewOptions\<lparr>Options.OutputPaths := [''STDOUT'', ''file.log'', ''stdout'', ''StdErr''],
        Options.Filename := ''app.log''\<rparr>)) \<and>
   distinct (getWriteSyncer
     (NewOptions\<lparr>Options.OutputPaths := [''STDOUT'', ''file.log'', ''stdout'', ''StdErr''],
        Options.Filename := ''app.log''\<rparr>))"
proof -
  have l: "ToLower ''STDOUT'' = ''stdout''" "ToLower ''file.log'' = ''file.log''"
    "ToLower ''stdout'' = ''stdout''" "ToLower ''StdErr'' = ''stderr''"
    by code_simp+
  have v: "getWriteSyncer
     (NewOptions\<lparr>Options.OutputPaths := [''STDOUT'', ''file.log'', ''stdout'', ''StdErr''],
        Options.Filename := ''app.log''\<rparr>) =
     [Lumberjack ''app.log'' 0 0 0 False, Stdout, Stderr]"
    by (simp add: getWriteSyncer_def NewOptions_def l del: ToLower.simps)
  show ?thesis
    using v getWriteSyncer_sinks
      [of "NewOptions\<lparr>Options.OutputPaths := [''STDOUT'', ''file.log'', ''stdout'', ''StdErr''],
        Options.Filename := ''app.log''\<rparr>" "''app.log''" 0 0 0 False]
    by simp
qed

subsection \<open>From a configuration to options and to a logger\<close>

lemma ToLogOptionsFromConfig_Some:
  "ToLogOptionsFromConfig (Some c) =
     \<lparr> Options.OutputPaths = Config.OutputPaths c,
       Options.ErrorOutputPaths = Config.ErrorOutputPaths c,
       Options.Level = Config.Level c, Options.Format = Config.Format c,
       Options.DisableCaller = Config.DisableCaller c,
       Options.DisableStacktrace = Config.DisableStacktrace c,
       Options.Filename = Config.Filename c, Options.MaxSize = Config.MaxSize c,
       Options.MaxAge = Config.MaxAge c, Options.MaxBackups = Config.MaxBackups c,
       Options.Compress = Config.Compress c, Options.Development = Config.Development c \<rparr>"
  by (simp add: ToLogOptionsFromConfig_def NewOptions_def)

lemma getWriteSyncer_no_sink:
  "Options.OutputPaths opts = [] \<Longrightarrow> Options.Filename opts = [] \<Longrightarrow> getWriteSyncer opts = []"
  by (simp add: getWriteSyncer_def)

lemma New_keeps_paths:
  "Options.OutputPaths (snd (New opts)) = Options.OutputPaths opts"
  "Options.Filename (snd (New opts)) = Options.Filename opts"
  by (simp_all add: New_snd)

lemma Logger_log_written_no_sink:
  "core_out (snd p) = [] \<Longrightarrow> written (Logger_log p lvl msg flds s) = written s"
  by (simp add: Logger_log_def Let_def)

text \<open>
  Claim C10. On a non-nil configuration \<^verbatim>\<open>ToOptions\<close> is \<^verbatim>\<open>ToLogOptionsFromConfig\<close>, and
  the options it returns have the twelve fields of the configuration, with no default
  put back for an empty field. So a configuration with no output path and no filename
  gives a logger whose core has no sink, and no entry logged through it is written.
\<close>

theorem ToOptions_copies_without_defaults:
  "ToOptions (Some c) = ToLogOptionsFromConfig (Some c) \<and>
   ToOptions (Some c) =
     \<lparr> Options.OutputPaths = Config.OutputPaths c,
       Options.ErrorOutputPaths = Config.ErrorOutputPaths c,
       Options.Level = Config.Level c, Options.Format = Config.Format c,
       Options.DisableCaller = Config.DisableCaller c,
       Options.DisableStacktrace = Config.DisableStacktrace c,
       Options.Filename = Config.Filename c, Options.MaxSize = Config.MaxSize c,
       Options.MaxAge = Config.MaxAge c, Options.MaxBackups = Config.MaxBackups c,
       Options.Compress = Config.Compress c, Options.Development = Config.Development c \<rparr> \<and>
   (Config.OutputPaths c = [] \<and> Config.Filename c = [] \<longrightarrow>
      core_out (fst (New (ToOptions (Some c)))) = [] \<and>
      (\<forall>a lvl msg flds s.
         written (Logger_log (a, fst (New (ToOptions (Some c)))) lvl msg flds s) = written s))"
proof -
  have eq: "ToOptions (Some c) = ToLogOptionsFromConfig (Some c)"
    by (simp add: ToOptions_def)
  have none: "core_out (fst (New (ToOptions (Some c)))) = []"
    if "Config.OutputPaths c = []" "Config.Filename c = []"
    unfolding New_core_out
    by (rule getWriteSyncer_no_sink)
      (simp_all add: New_keeps_paths eq ToLogOptionsFromConfig_Some that)
  show ?thesis
    using eq none ToLogOptionsFromConfig_Some [of c]
    by (simp add: Logger_log_written_no_sink)
qed

text \<open>
  The theorem at the configuration whose fields are all empty.
\<close>

theorem ToOptions_copies_without_defaults_witness:
  "Options.Level (ToOptions (Some \<lparr> Level = [], Format = [], OutputPaths = [],
       ErrorOutputPaths = [], DisableCaller = False, DisableStacktrace = False,
       Filename = [], MaxSize = 0, MaxAge = 0, MaxBackups = 0, Compress = False,
       Development = False \<rparr>)) = [] \<and>
   Options.OutputPaths (ToOptions (Some \<lparr> Level = [], Format = [], OutputPaths = [],
       ErrorOutputPaths = [], DisableCaller = False, DisableStacktrace = False,
       Filename = [], MaxSize = 0, MaxAge = 0, MaxBackups = 0, Compress = False,
       Development = False \<rparr>)) = [] \<and>
   core_out (fst (New (ToOptions (Some \<lparr> Level = [], Format = [], OutputPaths = [],
       ErrorOutputPaths = [], DisableCaller = False, DisableStacktrace = False,
       Filename = [], MaxSize = 0, MaxAge = 0, MaxBackups = 0, Compress = False,
       Development = False \<rparr>)))) = [] \<and>
   written (Logger_log (7, fst (New (ToOptions (Some \<lparr> Level = [], Format = [],
       OutputPaths = [],
       ErrorOutputPaths = [], DisableCaller = False, DisableStacktrace = False,
       Filename = [], MaxSize = 0, MaxAge = 0, MaxBackups = 0, Compress = False,
       Development = False \<rparr>)))) ErrorLevel ''lost'' [] init) = []"
proof -
  let ?c = "\<lparr> Level = [], Format = [], OutputPaths = [],
       ErrorOutputPaths = [], DisableCaller = False, DisableStacktrace = False,
       Filename = [], MaxSize = 0, MaxAge = 0, MaxBackups = 0, Compress = False,
       Development = False \<rparr>"
  note t = ToOptions_copies_without_defaults [of ?c]
  have w0: "written init = []" by (simp add: init_def)
  have copied: "Options.Level (ToOptions (Some ?c)) = [] \<and>
      Options.OutputPaths (ToOptions (Some ?c)) = []"
    using t [THEN conjunct2, THEN conjunct1] by simp
  have dropped: "core_out (fst (New (ToOptions (Some ?c)))) = [] \<and>
      written (Logger_log (7, fst (New (ToOptions (Some ?c)))) ErrorLevel ''lost'' [] init)
        = written init"
    using t [THEN conjunct2, THEN conjunct2] by simp
  show ?thesis using copied dropped w0 by simp
qed

section \<open>Properties of the writer adapters\<close>

lemma strip_newline:
  "(if length p > 0 \<and> p ! (length p - 1) = c then take (length p - 1) p else p) =
   (if p \<noteq> [] \<and> last p = c then butlast p else p)"
  by (cases "p = []") (simp_all add: last_conv_nth butlast_conv_take)

lemma Write_eq:
  "Write w p s =
     ((int (length p), None),
      Logger_log (logger w)
        (if level w = DebugLevel \<or> level w = WarnLevel \<or> level w = ErrorLevel
         then level w else InfoLevel)
        (if p \<noteq> [] \<and> last p = CHR 0x0A then butlast p else p) [] s)"
  unfolding Write_def Let_def strip_newline
  by (cases "level w")
    (simp_all add: Logger_Debug_def Logger_Info_def Logger_Warn_def Logger_Error_def)

lemma Logger_log_calls:
  "calls (Logger_log q lvl msg flds s) =
     calls s @ [(fst q, \<lparr> entry_level = lvl, entry_msg = msg,
                           entry_fields = core_fields (snd q) @ flds \<rparr>)]"
  by (simp add: Logger_log_def Let_def)

lemma Logger_log_written:
  "written (Logger_log q lvl msg flds s) =
     written s @
       (if level_num (core_level (snd q)) \<le> level_num lvl
        then map (\<lambda>w. (w, core_enc (snd q),
                        \<lparr> entry_level = lvl, entry_msg = msg,
                          entry_fields = core_fields (snd q) @ flds \<rparr>)) (core_out (snd q))
        else [])"
  by (simp add: Logger_log_def Let_def)

lemma Logger_log_std:
  "std (Logger_log q lvl msg flds s) = std s"
  "next_addr (Logger_log q lvl msg flds s) = next_addr s"
  by (simp_all add: Logger_log_def Let_def)

lemma init_std:
  "std init = (0, \<lparr> core_enc = ConsoleEncoder, core_out = [Stdout],
      core_level = InfoLevel, core_fields = [], errorOutput = [Stderr], addCaller = True,
      addStack = Some ErrorLevel, development = False \<rparr>)"
proof -
  have l: "ToLower ''stdout'' = ''stdout''" "ToLower ''stderr'' = ''stderr''"
    by code_simp+
  have p: "UnmarshalText ''info'' = Some InfoLevel"
    by (simp add: UnmarshalText_def unmarshalText_def)
  show ?thesis
    by (simp add: init_def New_def NewOptions_def getWriteSyncer_def getErrorWriteSyncer_def
        zap_New_def l p del: ToLower.simps)
qed

lemma init_traces: "calls init = []" "written init = []" "next_addr init = 1"
  by (simp_all add: init_def)

text \<open>
  Claim C7. For every byte slice \<open>p\<close>, every adapter and every state, \<^verbatim>\<open>Write\<close> returns
  the length of \<open>p\<close> and the nil error, and hands exactly one entry to the logger of the
  adapter: its message is \<open>p\<close> without its last byte when that byte is a newline and
  \<open>p\<close> itself otherwise, and its severity is the one of the adapter (\<^verbatim>\<open>info\<close> for
  \<^verbatim>\<open>GinWriter\<close>, \<^verbatim>\<open>error\<close> for \<^verbatim>\<open>GinErrorWriter\<close>). The result does not depend on the
  logger.
\<close>

theorem Write_one_entry:
  "fst (Write w p s) = (int (length p), None) \<and>
   calls (snd (Write w p s)) =
     calls s @
       [(fst (logger w),
         \<lparr> entry_level =
             (if level w = DebugLevel \<or> level w = WarnLevel \<or> level w = ErrorLevel
              then level w else InfoLevel),
           entry_msg = (if p \<noteq> [] \<and> last p = CHR 0x0A then butlast p else p),
           entry_fields = core_fields (snd (logger w)) \<rparr>)] \<and>
   std (snd (Write w p s)) = std s \<and>
   level (GinWriter s) = InfoLevel \<and> level (GinErrorWriter s) = ErrorLevel"
  by (simp add: Write_eq Logger_log_calls Logger_log_std GinWriter_def GinErrorWriter_def)

text \<open>
  The theorem at a line that ends in a newline and at one that does not.
\<close>

theorem Write_one_entry_witness:
  "fst (Write (GinErrorWriter init) (''GET /'' @ [CHR 0x0A]) init) = (6, None) \<and>
   calls (snd (Write (GinErrorWriter init) (''GET /'' @ [CHR 0x0A]) init)) =
     [(0, \<lparr> entry_level = ErrorLevel, entry_msg = ''GET /'', entry_fields = [] \<rparr>)] \<and>
   written (snd (Write (GinErrorWriter init) (''GET /'' @ [CHR 0x0A]) init)) =
     [(Stdout, ConsoleEncoder,
       \<lparr> entry_level = ErrorLevel, entry_msg = ''GET /'', entry_fields = [] \<rparr>)] \<and>
   calls (snd (Write (GinWriter init) ''no newline'' init)) =
     [(0, \<lparr> entry_level = InfoLevel, entry_msg = ''no newline'', entry_fields = [] \<rparr>)]"
proof -
  have w: "written (snd (Write (GinErrorWriter init) (''GET /'' @ [CHR 0x0A]) init)) =
     [(Stdout, ConsoleEncoder,
       \<lparr> entry_level = ErrorLevel, entry_msg = ''GET /'', entry_fields = [] \<rparr>)]"
    by (simp add: Write_eq Logger_log_written GinErrorWriter_def init_std init_traces)
  show ?thesis
    using w Write_one_entry [of "GinErrorWriter init" "''GET /'' @ [CHR 0x0A]" init]
      Write_one_entry [of "GinWriter init" "''no newline''" init]
    by (simp add: GinErrorWriter_def GinWriter_def init_std init_traces)
qed

subsection \<open>The logger of an adapter\<close>

lemma Init_std_addr: "fst (std (Init opts s)) = next_addr s"
  by (simp add: Init_def Let_def)

lemma Init_error_std:
  "std (Init [WithLevel ''error''] init) =
     (1, \<lparr> core_enc = ConsoleEncoder, core_out = [Stdout],
      core_level = ErrorLevel, core_fields = [], errorOutput = [Stderr], addCaller = True,
      addStack = Some ErrorLevel, development = False \<rparr>)"
proof -
  have l: "ToLower ''stdout'' = ''stdout''" "ToLower ''stderr'' = ''stderr''"
    by code_simp+
  have p: "UnmarshalText ''error'' = Some ErrorLevel"
    by (simp add: UnmarshalText_def unmarshalText_def)
  show ?thesis
    by (simp add: Init_def init_traces WithLevel_def p New_def NewOptions_def
        getWriteSyncer_def getErrorWriteSyncer_def zap_New_def l del: ToLower.simps)
qed

lemma Init_traces:
  "calls (Init opts s) = calls s" "written (Init opts s) = written s"
  by (simp_all add: Init_def Let_def)

text \<open>
  Claim C2, as amended. An adapter stores the logger that is global when the adapter is
  created, and every write through it is handed to that logger, whatever the global
  logger is at the time of the write: \<open>s0\<close> is the state in which the adapter was
  created, \<open>s\<close> the state in which it is written to.
\<close>

theorem adapter_logs_through_captured_logger:
  "logger (GinWriter s0) = std s0 \<and> logger (GinErrorWriter s0) = std s0 \<and>
   calls (snd (Write (GinWriter s0) p s)) =
     calls s @
       [(fst (std s0),
         \<lparr> entry_level = InfoLevel,
           entry_msg = (if p \<noteq> [] \<and> last p = CHR 0x0A then butlast p else p),
           entry_fields = core_fields (snd (std s0)) \<rparr>)] \<and>
   calls (snd (Write (GinErrorWriter s0) p s)) =
     calls s @
       [(fst (std s0),
         \<lparr> entry_level = ErrorLevel,
           entry_msg = (if p \<noteq> [] \<and> last p = CHR 0x0A then butlast p else p),
           entry_fields = core_fields (snd (std s0)) \<rparr>)] \<and>
   written (snd (Write (GinWriter s0) p s)) =
     written (Logger_log (std s0) InfoLevel
       (if p \<noteq> [] \<and> last p = CHR 0x0A then butlast p else p) [] s) \<and>
   written (snd (Write (GinErrorWriter s0) p s)) =
     written (Logger_log (std s0) ErrorLevel
       (if p \<noteq> [] \<and> last p = CHR 0x0A then butlast p else p) [] s)"
  by (simp add: Write_eq Logger_log_calls GinWriter_def GinErrorWriter_def)

text \<open>
  The theorem after a re-initialization: an adapter created before it logs through the
  logger at address 0, an adapter created after it through the new logger at address 1.
\<close>

theorem adapter_logs_through_captured_logger_witness:
  "calls (snd (Write (GinWriter init) (''ping'' @ [CHR 0x0A])
      (Init [WithLevel ''error''] init))) =
     [(0, \<lparr> entry_level = InfoLevel, entry_msg = ''ping'', entry_fields = [] \<rparr>)] \<and>
   calls (snd (Write (GinWriter (Init [WithLevel ''error''] init)) (''ping'' @ [CHR 0x0A])
      (Init [WithLevel ''error''] init))) =
     [(1, \<lparr> entry_level = InfoLevel, entry_msg = ''ping'', entry_fields = [] \<rparr>)]"
  using adapter_logs_through_captured_logger
      [of init "''ping'' @ [CHR 0x0A]" "Init [WithLevel ''error''] init"]
    adapter_logs_through_captured_logger
      [of "Init [WithLevel ''error''] init" "''ping'' @ [CHR 0x0A]"
        "Init [WithLevel ''error''] init"]
  by (simp add: init_std Init_error_std Init_traces init_traces)

text \<open>
  Claim C2 as stated fails: after \<^verbatim>\<open>Init(WithLevel("error"))\<close> a write on the adapter made
  before it goes to the old logger, which writes the \<^verbatim>\<open>info\<close> entry to the output stream;
  the new global logger writes nothing for an \<^verbatim>\<open>info\<close> entry.
\<close>

theorem adapter_counterexample:
  "fst (std init) = 0 \<and>
   fst (std (Init [WithLevel ''error''] init)) = 1 \<and>
   calls (snd (Write (GinWriter init) (''ping'' @ [CHR 0x0A])
      (Init [WithLevel ''error''] init))) =
     [(0, \<lparr> entry_level = InfoLevel, entry_msg = ''ping'', entry_fields = [] \<rparr>)] \<and>
   written (snd (Write (GinWriter init) (''ping'' @ [CHR 0x0A])
      (Init [WithLevel ''error''] init))) =
     [(Stdout, ConsoleEncoder,
       \<lparr> entry_level = InfoLevel, entry_msg = ''ping'', entry_fields = [] \<rparr>)] \<and>
   written (Info ''ping'' [] (Init [WithLevel ''error''] init)) = []"
  by (simp add: Write_eq Logger_log_calls Logger_log_written GinWriter_def Info_def
      Logger_Info_def init_std Init_error_std Init_traces init_traces)

section \<open>Properties of the context field extractor\<close>

lemma SpanFromContext_WithValue:
  "k \<noteq> currentSpanKey \<Longrightarrow>
   SpanFromContext (Some (WithValue c k v)) = SpanFromContext (Some c)"
  by (simp add: SpanFromContext_def)

lemma extractTraceID_Some:
  "extractTraceID (Some c) =
     Inr (if IsValid (SpanFromContext (Some c))
          then TraceID_String (traceID (SpanFromContext (Some c)))
          else case Value c traceIDKey of Some (StringVal t) \<Rightarrow> t | _ \<Rightarrow> [])"
  by (simp add: extractTraceID_def Let_def split: option.splits ctx_val.splits)

lemma FromContext_Some:
  "FromContext (Some c) s =
     Inr (Logger_With (std s)
       ((case extractTraceID (Some c) of
           Inr tid \<Rightarrow> if tid \<noteq> [] then [zap_String ''traceID'' tid] else []
         | Inl e \<Rightarrow> []) @
        (case Value c requestIDKey of
           Some (StringVal rid) \<Rightarrow> if rid \<noteq> [] then [zap_String ''requestID'' rid] else []
         | _ \<Rightarrow> [])) s)"
  by (simp add: FromContext_def extractTraceID_Some Let_def Logger_With_def
      split: option.splits ctx_val.splits)

lemma Logger_With_Nil: "Logger_With q [] s = (q, s)"
  by (simp add: Logger_With_def)

lemma Logger_With_Cons:
  "Logger_With q (f # fs) s =
     ((next_addr s, (snd q)\<lparr>core_fields := core_fields (snd q) @ f # fs\<rparr>),
      s\<lparr>next_addr := Suc (next_addr s)\<rparr>)"
  by (simp add: Logger_With_def)

text \<open>
  Claim C5. The setters bind the identifier under their key and leave the other
  identifier and the span as they are. For a context without a valid span in which the
  lookups give a non-empty trace id \<open>T\<close> and a non-empty request id \<open>R\<close>, \<^verbatim>\<open>FromContext\<close>
  returns a new logger, the global logger with the two fields \<^verbatim>\<open>traceID\<close> and \<^verbatim>\<open>requestID\<close>
  added, so that every entry logged through it carries them; the global logger and the
  traces are as before. For the nil context, and for a context with no valid span and
  neither identifier, it returns the global logger itself. (An empty identifier counts as
  no value.)
\<close>

theorem FromContext_derived_or_global:
  "(ContextWithTraceID (Some c0) T = Inr c1 \<longrightarrow>
      Value c1 traceIDKey = Some (StringVal T) \<and>
      Value c1 requestIDKey = Value c0 requestIDKey \<and>
      SpanFromContext (Some c1) = SpanFromContext (Some c0)) \<and>
   (ContextWithRequestID (Some c0) R = Inr c1 \<longrightarrow>
      Value c1 requestIDKey = Some (StringVal R) \<and>
      Value c1 traceIDKey = Value c0 traceIDKey \<and>
      SpanFromContext (Some c1) = SpanFromContext (Some c0)) \<and>
   (\<not> IsValid (SpanFromContext (Some c)) \<and>
    Value c traceIDKey = Some (StringVal T) \<and> T \<noteq> [] \<and>
    Value c requestIDKey = Some (StringVal R) \<and> R \<noteq> [] \<longrightarrow>
      (\<exists>q s'. FromContext (Some c) s = Inr (q, s') \<and>
         fst q = next_addr s \<and>
         snd q = (snd (std s))
           \<lparr>core_fields := core_fields (snd (std s)) @
              [zap_String ''traceID'' T, zap_String ''requestID'' R]\<rparr> \<and>
         std s' = std s \<and> calls s' = calls s \<and> written s' = written s \<and>
         (\<forall>lvl msg flds s''.
            calls (Logger_log q lvl msg flds s'') =
              calls s'' @
                [(fst q, \<lparr> entry_level = lvl, entry_msg = msg,
                    entry_fields = core_fields (snd (std s)) @
                      [zap_String ''traceID'' T, zap_String ''requestID'' R] @ flds \<rparr>)]))) \<and>
   FromContext None s = Inr (std s, s) \<and>
   (\<not> IsValid (SpanFromContext (Some c)) \<and>
    Value c traceIDKey = None \<and> Value c requestIDKey = None \<longrightarrow>
      FromContext (Some c) s = Inr (std s, s))"
proof -
  have setters:
    "ContextWithTraceID (Some c0) T = Inr c1 \<longrightarrow>
      Value c1 traceIDKey = Some (StringVal T) \<and>
      Value c1 requestIDKey = Value c0 requestIDKey \<and>
      SpanFromContext (Some c1) = SpanFromContext (Some c0)"
    "ContextWithRequestID (Some c0) R = Inr c1 \<longrightarrow>
      Value c1 requestIDKey = Some (StringVal R) \<and>
      Value c1 traceIDKey = Value c0 traceIDKey \<and>
      SpanFromContext (Some c1) = SpanFromContext (Some c0)"
    by (auto simp: ContextWithTraceID_def ContextWithRequestID_def SpanFromContext_WithValue)
  have derived: "\<exists>q s'. FromContext (Some c) s = Inr (q, s') \<and>
         fst q = next_addr s \<and>
         snd q = (snd (std s))
           \<lparr>core_fields := core_fields (snd (std s)) @
              [zap_String ''traceID'' T, zap_String ''requestID'' R]\<rparr> \<and>
         std s' = std s \<and> calls s' = calls s \<and> written s' = written s \<and>
         (\<forall>lvl msg flds s''.
            calls (Logger_log q lvl msg flds s'') =
              calls s'' @
                [(fst q, \<lparr> entry_level = lvl, entry_msg = msg,
                    entry_fields = core_fields (snd (std s)) @
                      [zap_String ''traceID'' T, zap_String ''requestID'' R] @ flds \<rparr>)])"
    if "\<not> IsValid (SpanFromContext (Some c))"
      "Value c traceIDKey = Some (StringVal T)" "T \<noteq> []"
      "Value c requestIDKey = Some (StringVal R)" "R \<noteq> []"
    using that
    by (simp add: FromContext_Some extractTraceID_Some Logger_With_Cons Logger_log_calls)
  have nil: "FromContext None s = Inr (std s, s)"
    by (simp add: FromContext_def)
  have neither: "FromContext (Some c) s = Inr (std s, s)"
    if "\<not> IsValid (SpanFromContext (Some c))"
      "Value c traceIDKey = None" "Value c requestIDKey = None"
    using that by (simp add: FromContext_Some extractTraceID_Some Logger_With_Nil)
  show ?thesis using setters derived nil neither by blast
qed

text \<open>
  The theorem at the context that the two setters build over the background context.
\<close>

theorem FromContext_derived_or_global_witness:
  "ContextWithTraceID (Some Background) ''my-trace-id-123'' =
     Inr (WithValue Background traceIDKey (StringVal ''my-trace-id-123'')) \<and>
   ContextWithRequestID
     (Some (WithValue Background traceIDKey (StringVal ''my-trace-id-123'')))
     ''my-request-id-456'' =
     Inr (WithValue (WithValue Background traceIDKey (StringVal ''my-trace-id-123''))
            requestIDKey (StringVal ''my-request-id-456'')) \<and>
   \<not> IsValid (SpanFromContext
     (Some (WithValue (WithValue Background traceIDKey (StringVal ''my-trace-id-123''))
            requestIDKey (StringVal ''my-request-id-456'')))) \<and>
   FromContext
     (Some (WithValue (WithValue Background traceIDKey (StringVal ''my-trace-id-123''))
            requestIDKey (StringVal ''my-request-id-456''))) init =
     Inr ((1, (snd (std init))
             \<lparr>core_fields := [zap_String ''traceID'' ''my-trace-id-123'',
                               zap_String ''requestID'' ''my-request-id-456'']\<rparr>),
          init\<lparr>next_addr := 2\<rparr>) \<and>
   FromContext (Some Background) init = Inr (std init, init) \<and>
   FromContext None init = Inr (std init, init)"
proof -
  let ?c1 = "WithValue Background traceIDKey (StringVal ''my-trace-id-123'')"
  let ?c2 = "WithValue ?c1 requestIDKey (StringVal ''my-request-id-456'')"
  note t = FromContext_derived_or_global
    [of Background "''my-trace-id-123''" ?c1 "''my-request-id-456''" ?c2 init]
  have set1: "ContextWithTraceID (Some Background) ''my-trace-id-123'' = Inr ?c1"
    by (simp add: ContextWithTraceID_def)
  have set2: "ContextWithRequestID (Some ?c1) ''my-request-id-456'' = Inr ?c2"
    by (simp add: ContextWithRequestID_def)
  have nospan: "\<not> IsValid (SpanFromContext (Some ?c2))"
    by (simp add: SpanFromContext_def noopSpan_def IsValid_def)
  have vals: "Value ?c2 traceIDKey = Some (StringVal ''my-trace-id-123'')"
    "Value ?c2 requestIDKey = Some (StringVal ''my-request-id-456'')"
    by simp_all
  from t nospan vals obtain q s' where r: "FromContext (Some ?c2) init = Inr (q, s')"
    "fst q = next_addr init"
    "snd q = (snd (std init))
           \<lparr>core_fields := core_fields (snd (std init)) @
              [zap_String ''traceID'' ''my-trace-id-123'',
               zap_String ''requestID'' ''my-request-id-456'']\<rparr>"
    by auto
  have s': "s' = init\<lparr>next_addr := 2\<rparr>"
    using r(1) by (auto simp: FromContext_Some extractTraceID_Some nospan Logger_With_Cons
        init_traces numeral_2_eq_2)
  have q: "q = (1, (snd (std init))
             \<lparr>core_fields := [zap_String ''traceID'' ''my-trace-id-123'',
                               zap_String ''requestID'' ''my-request-id-456'']\<rparr>)"
    using r(2,3) by (cases q) (simp add: init_traces init_std)
  have bg: "FromContext (Some Background) init = Inr (std init, init)"
    using FromContext_derived_or_global [of Background T c1 R Background init]
    by (simp add: SpanFromContext_def noopSpan_def IsValid_def)
  have nl: "FromContext None init = Inr (std init, init)"
    by (simp add: FromContext_def)
  show ?thesis using set1 set2 nospan r(1) s' q bg nl by simp
qed

subsection \<open>The priority of the trace id\<close>

lemma TraceIDFromContext_nil:
  "TraceIDFromContext None = Inl NilPointerDereference" "RequestIDFromContext None = []"
  by (simp_all add: TraceIDFromContext_def extractTraceID_def SpanFromContext_def
      noopSpan_def IsValid_def RequestIDFromContext_def)

text \<open>
  Claim C6. For every non-nil context: when the span of the context has a valid span
  context, the trace id is the one of the span, whatever is stored under the custom key;
  otherwise it is the string stored under the custom key when that is a non-empty string,
  and the empty string in every other case. \<^verbatim>\<open>TraceIDFromContext\<close> is this function, and
  \<^verbatim>\<open>FromContext\<close> uses it for the \<^verbatim>\<open>traceID\<close> field. The request id, in
  \<^verbatim>\<open>RequestIDFromContext\<close> and in the \<^verbatim>\<open>requestID\<close> field of \<^verbatim>\<open>FromContext\<close>, is a function
  of the value under the custom key alone.
\<close>

theorem extractTraceID_priority:
  "(IsValid (SpanFromContext (Some c)) \<longrightarrow>
      extractTraceID (Some c) = Inr (TraceID_String (traceID (SpanFromContext (Some c))))) \<and>
   (\<not> IsValid (SpanFromContext (Some c)) \<and>
    Value c traceIDKey = Some (StringVal t) \<and> t \<noteq> [] \<longrightarrow>
      extractTraceID (Some c) = Inr t) \<and>
   (\<not> IsValid (SpanFromContext (Some c)) \<and>
    (Value c traceIDKey = None \<or> Value c traceIDKey = Some (StringVal []) \<or>
     Value c traceIDKey = Some (SpanVal sc) \<or> Value c traceIDKey = Some ForeignVal) \<longrightarrow>
      extractTraceID (Some c) = Inr []) \<and>
   TraceIDFromContext (Some c) = extractTraceID (Some c) \<and>
   RequestIDFromContext (Some c) =
     (case Value c requestIDKey of Some (StringVal r) \<Rightarrow> r | _ \<Rightarrow> []) \<and>
   FromContext (Some c) s =
     Inr (Logger_With (std s)
       ((case extractTraceID (Some c) of
           Inr tid \<Rightarrow> if tid \<noteq> [] then [zap_String ''traceID'' tid] else []
         | Inl e \<Rightarrow> []) @
        (case Value c requestIDKey of
           Some (StringVal rid) \<Rightarrow> if rid \<noteq> [] then [zap_String ''requestID'' rid] else []
         | _ \<Rightarrow> [])) s)"
proof -
  have span: "extractTraceID (Some c) =
      Inr (TraceID_String (traceID (SpanFromContext (Some c))))"
    if "IsValid (SpanFromContext (Some c))"
    using that by (simp add: extractTraceID_Some)
  have custom: "extractTraceID (Some c) = Inr t"
    if "\<not> IsValid (SpanFromContext (Some c))" "Value c traceIDKey = Some (StringVal t)"
    using that by (simp add: extractTraceID_Some)
  have absent: "extractTraceID (Some c) = Inr []"
    if "\<not> IsValid (SpanFromContext (Some c))"
      "Value c traceIDKey = None \<or> Value c traceIDKey = Some (StringVal []) \<or>
       Value c traceIDKey = Some (SpanVal sc) \<or> Value c traceIDKey = Some ForeignVal"
    using that by (auto simp: extractTraceID_Some)
  have acc: "TraceIDFromContext (Some c) = extractTraceID (Some c)"
    by (simp add: TraceIDFromContext_def)
  have req: "RequestIDFromContext (Some c) =
     (case Value c requestIDKey of Some (StringVal r) \<Rightarrow> r | _ \<Rightarrow> [])"
    by (simp add: RequestIDFromContext_def)
  have span': "IsValid (SpanFromContext (Some c)) \<longrightarrow>
      extractTraceID (Some c) = Inr (TraceID_String (traceID (SpanFromContext (Some c))))"
    using span by blast
  have custom': "\<not> IsValid (SpanFromContext (Some c)) \<and>
      Value c traceIDKey = Some (StringVal t) \<and> t \<noteq> [] \<longrightarrow>
      extractTraceID (Some c) = Inr t"
    using custom by blast
  have absent': "\<not> IsValid (SpanFromContext (Some c)) \<and>
      (Value c traceIDKey = None \<or> Value c traceIDKey = Some (StringVal []) \<or>
       Value c traceIDKey = Some (SpanVal sc) \<or> Value c traceIDKey = Some ForeignVal) \<longrightarrow>
      extractTraceID (Some c) = Inr []"
    using absent by blast
  show ?thesis
    by (rule conjI [OF span' conjI [OF custom' conjI [OF absent'
          conjI [OF acc conjI [OF req FromContext_Some]]]]])
qed

text \<open>
  The theorem at a context with a valid span and a custom trace id, at one whose span is
  invalid, and at one with neither.
\<close>

theorem extractTraceID_priority_witness:
  "IsValid (SpanFromContext (Some
     (WithValue
        (WithValue Background currentSpanKey
           (SpanVal \<lparr> traceID = 0x4bf92f3577b34da6a3ce929d0e0e4736,
                      spanID = 0x00f067aa0ba902b7 \<rparr>))
        traceIDKey (StringVal ''custom'')))) \<and>
   extractTraceID (Some
     (WithValue
        (WithValue Background currentSpanKey
           (SpanVal \<lparr> traceID = 0x4bf92f3577b34da6a3ce929d0e0e4736,
                      spanID = 0x00f067aa0ba902b7 \<rparr>))
        traceIDKey (StringVal ''custom''))) = Inr ''4bf92f3577b34da6a3ce929d0e0e4736'' \<and>
   \<not> IsValid (SpanFromContext (Some
     (WithValue
        (WithValue Background currentSpanKey
           (SpanVal \<lparr> traceID = 0x4bf92f3577b34da6a3ce929d0e0e4736, spanID = 0 \<rparr>))
        traceIDKey (StringVal ''custom'')))) \<and>
   extractTraceID (Some
     (WithValue
        (WithValue Background currentSpanKey
           (SpanVal \<lparr> traceID = 0x4bf92f3577b34da6a3ce929d0e0e4736, spanID = 0 \<rparr>))
        traceIDKey (StringVal ''custom''))) = Inr ''custom'' \<and>
   extractTraceID (Some (WithValue Background requestIDKey (StringVal ''r-1''))) = Inr []"
proof -
  let ?sc = "\<lparr> traceID = 0x4bf92f3577b34da6a3ce929d0e0e4736 :: 128 word,
              spanID = 0x00f067aa0ba902b7 :: 64 word \<rparr>"
  let ?bad = "\<lparr> traceID = 0x4bf92f3577b34da6a3ce929d0e0e4736 :: 128 word,
               spanID = 0 :: 64 word \<rparr>"
  let ?c = "WithValue (WithValue Background currentSpanKey (SpanVal ?sc))
              traceIDKey (StringVal ''custom'')"
  let ?d = "WithValue (WithValue Background currentSpanKey (SpanVal ?bad))
              traceIDKey (StringVal ''custom'')"
  let ?e = "WithValue Background requestIDKey (StringVal ''r-1'')"
  have hex: "TraceID_String (0x4bf92f3577b34da6a3ce929d0e0e4736 :: 128 word) =
      ''4bf92f3577b34da6a3ce929d0e0e4736''"
    by (simp add: TraceID_String_def hexdigit_def upt_rec drop_bit_eq_div unat_div)
  have sp: "SpanFromContext (Some ?c) = ?sc" "SpanFromContext (Some ?d) = ?bad"
    "SpanFromContext (Some ?e) = noopSpan"
    by (simp_all add: SpanFromContext_def)
  have v: "IsValid ?sc" "\<not> IsValid ?bad" "\<not> IsValid noopSpan"
    by (simp_all add: IsValid_def noopSpan_def)
  have a: "extractTraceID (Some ?c) = Inr ''4bf92f3577b34da6a3ce929d0e0e4736''"
    using extractTraceID_priority [of ?c t sc s, THEN conjunct1] sp v hex by simp
  have b: "extractTraceID (Some ?d) = Inr ''custom''"
    using extractTraceID_priority [of ?d "''custom''" sc s, THEN conjunct2, THEN conjunct1]
      sp v by simp
  have c: "extractTraceID (Some ?e) = Inr []"
    using extractTraceID_priority
      [of ?e t sc s, THEN conjunct2, THEN conjunct2, THEN conjunct1] sp v by simp
  show ?thesis using a b c sp v by simp
qed

end
